theory Spec2Isabelle
  imports Complex_Main
begin

section \<open>Vector and ray primitives\<close>

text \<open>
  The renderer computes with C++ \<open>double\<close>. Here a \<open>double\<close> is a \<^typ>\<open>real\<close>: rounding,
  NaN and the infinities are left out, and a quotient by zero has HOL's value
  (\<open>x / 0 = 0\<close>) where the program would produce an infinity or a NaN.
  C++ \<open>int\<close> is \<^typ>\<open>int\<close>: no counter of the program can overflow before its loop bound
  or its depth guard stops it.

  The headers \<open>vec3.h\<close>, \<open>ray.h\<close>, \<open>interval.h\<close>, \<open>color.h\<close> and \<open>rtweekend.h\<close> are not
  among the sources. Their types and the usual vector arithmetic are written out below;
  the helpers whose body cannot be read off the sources that use them are parameters
  (the record \<open>env\<close> further down).
\<close>

text \<open>
  Modelled from the spec: class \<open>vec3\<close> (header \<open>vec3.h\<close>), "Vector3 (double triple)";
  the accessors \<open>x()\<close>, \<open>y()\<close>, \<open>z()\<close> are \<open>vec_x\<close>, \<open>vec_y\<close>, \<open>vec_z\<close>.
\<close>

datatype vec3 = Vec3 (vec_x: real) (vec_y: real) (vec_z: real)

type_synonym point3 = vec3
type_synonym color = vec3

text \<open>Modelled from the spec: the component-wise operators of \<open>vec3.h\<close>.\<close>

instantiation vec3 :: "{zero, plus, minus, uminus, times}"
begin

definition zero_vec3 :: vec3 where
  "zero_vec3 = Vec3 0 0 0"

definition plus_vec3 :: "vec3 \<Rightarrow> vec3 \<Rightarrow> vec3" where
  "plus_vec3 a b = Vec3 (vec_x a + vec_x b) (vec_y a + vec_y b) (vec_z a + vec_z b)"

definition minus_vec3 :: "vec3 \<Rightarrow> vec3 \<Rightarrow> vec3" where
  "minus_vec3 a b = Vec3 (vec_x a - vec_x b) (vec_y a - vec_y b) (vec_z a - vec_z b)"

definition uminus_vec3 :: "vec3 \<Rightarrow> vec3" where
  "uminus_vec3 a = Vec3 (- vec_x a) (- vec_y a) (- vec_z a)"

definition times_vec3 :: "vec3 \<Rightarrow> vec3 \<Rightarrow> vec3" where
  "times_vec3 a b = Vec3 (vec_x a * vec_x b) (vec_y a * vec_y b) (vec_z a * vec_z b)"

instance ..

end

text \<open>Modelled from the spec: \<open>double * vec3\<close> and \<open>vec3 / double\<close> of \<open>vec3.h\<close>.\<close>

definition scale :: "real \<Rightarrow> vec3 \<Rightarrow> vec3" where
  "scale k a = Vec3 (k * vec_x a) (k * vec_y a) (k * vec_z a)"

definition vdiv :: "vec3 \<Rightarrow> real \<Rightarrow> vec3" where
  "vdiv a k = scale (1 / k) a"

text \<open>Modelled from the spec: \<open>dot\<close>, \<open>cross\<close>, \<open>vec3::length\<close> and \<open>unit_vector\<close> of \<open>vec3.h\<close>.\<close>

definition dot :: "vec3 \<Rightarrow> vec3 \<Rightarrow> real" where
  "dot a b = vec_x a * vec_x b + vec_y a * vec_y b + vec_z a * vec_z b"

definition cross :: "vec3 \<Rightarrow> vec3 \<Rightarrow> vec3" where
  "cross a b = Vec3 (vec_y a * vec_z b - vec_z a * vec_y b)
                    (vec_z a * vec_x b - vec_x a * vec_z b)
                    (vec_x a * vec_y b - vec_y a * vec_x b)"

definition length_vec :: "vec3 \<Rightarrow> real" where
  "length_vec a = sqrt (dot a a)"

definition unit_vector :: "vec3 \<Rightarrow> vec3" where
  "unit_vector a = vdiv a (length_vec a)"

text \<open>
  Modelled from the spec: \<open>reflect\<close> of \<open>vec3.h\<close>, by the formula the comment in
  \<open>metal::scatter\<close> gives for it, \<open>v - 2*dot(v,n)*n\<close>.
\<close>

definition reflect :: "vec3 \<Rightarrow> vec3 \<Rightarrow> vec3" where
  "reflect a n = a - scale (2 * dot a n) n"

text \<open>Modelled from the spec: class \<open>ray\<close> (header \<open>ray.h\<close>), "origin point + direction vector".\<close>

record ray =
  origin :: point3
  direction :: vec3

text \<open>
  Modelled from the spec: class \<open>interval\<close> (header \<open>interval.h\<close>), with the members
  \<open>min\<close> and \<open>max\<close> that \<open>hittable_list::hit\<close> reads.
\<close>

record interval =
  min_val :: real
  max_val :: real

section \<open>Materials and hit records\<close>

text \<open>
  The three classes derived from \<open>material\<close>, one constructor each; the fields are the
  private members of the classes.
\<close>

datatype material =
    Lambertian (albedo: color)
  | Metal (albedo: color) (fuzz: real)
  | Dielectric (ir: real)

definition lambertian :: "color \<Rightarrow> material" where
  "lambertian a = Lambertian a"

definition metal :: "color \<Rightarrow> real \<Rightarrow> material" where
  "metal a f = Metal a (if f < 1 then f else 1)"

definition dielectric :: "real \<Rightarrow> material" where
  "dielectric index_of_refraction = Dielectric index_of_refraction"

text \<open>
  Class \<open>hit_record\<close>. The member \<open>mat\<close> is a \<open>shared_ptr\<close>, which can be null:
  \<open>None\<close> is the null pointer.
\<close>

record hit_record =
  point :: point3
  normal :: vec3
  t :: real
  mat :: "material option"
  front_face :: bool

definition set_face_normal :: "hit_record \<Rightarrow> ray \<Rightarrow> vec3 \<Rightarrow> hit_record" where
  "set_face_normal rec r outward_normal =
     (let ff = (dot (direction r) outward_normal < 0.0)
      in rec\<lparr>front_face := ff,
             normal := (if ff then outward_normal else - outward_normal)\<rparr>)"

text \<open>
  The abstract class \<open>hittable\<close>: \<open>hit\<close> takes the ray, the interval and the record it
  may write (a reference), and returns its verdict with the record as it leaves it.
\<close>

type_synonym hittable = "ray \<Rightarrow> interval \<Rightarrow> hit_record \<Rightarrow> bool \<times> hit_record"

section \<open>What the missing headers supply\<close>

text \<open>
  The functions of \<open>rtweekend.h\<close> and \<open>vec3.h\<close> whose bodies the sources under study do
  not show are parameters of the model, and so is the constant \<open>infinity\<close>:
  \<^item> \<open>random_double\<close>, \<open>random_unit_vector\<close>, \<open>random_in_unit_disk\<close> draw from the
    process-wide random source, whose state is a value of type \<open>'g\<close> that every draw
    takes and returns;
  \<^item> \<open>near_zero\<close> is \<open>vec3::near_zero\<close> and \<open>refract\<close> is \<open>refract\<close> of \<open>vec3.h\<close>;
  \<^item> \<open>uninit\<close> stands for the indeterminate contents of a \<open>hit_record\<close> that has been
    declared and not yet written.
\<close>

record 'g env =
  infinity :: real
  random_double :: "'g \<Rightarrow> real \<times> 'g"
  random_unit_vector :: "'g \<Rightarrow> vec3 \<times> 'g"
  random_in_unit_disk :: "'g \<Rightarrow> vec3 \<times> 'g"
  near_zero :: "vec3 \<Rightarrow> bool"
  refract :: "vec3 \<Rightarrow> vec3 \<Rightarrow> real \<Rightarrow> vec3"
  uninit :: hit_record

text \<open>
  A \<open>hit_record\<close> as its declaration leaves it: the \<open>shared_ptr\<close> is null, the other
  members hold whatever \<open>uninit\<close> says.
\<close>

definition fresh_record :: "'g env \<Rightarrow> hit_record" where
  "fresh_record env = (uninit env)\<lparr>mat := None\<rparr>"

text \<open>Modelled from the spec: \<open>degrees_to_radians\<close> of \<open>rtweekend.h\<close>.\<close>

definition degrees_to_radians :: "real \<Rightarrow> real" where
  "degrees_to_radians degrees = degrees * pi / 180"

section \<open>The scatter protocol\<close>

text \<open>
  \<open>scatter\<close> returns its verdict and writes \<open>attenuation\<close> and \<open>scattered\<close> through
  references; each of the three bodies assigns both on every path, so the model returns
  the triple (verdict, attenuation, scattered ray) and the state of the random source.
\<close>

type_synonym 'g scatter_result = "(bool \<times> color \<times> ray) \<times> 'g"

definition lambertian_scatter ::
  "'g env \<Rightarrow> color \<Rightarrow> ray \<Rightarrow> hit_record \<Rightarrow> 'g \<Rightarrow> 'g scatter_result" where
  "lambertian_scatter env a r_in hit g =
     (let (rv, g1) = random_unit_vector env g;
          scatter_direction = normal hit + rv;
          scatter_direction = (if near_zero env scatter_direction then normal hit
                               else scatter_direction);
          scattered = \<lparr>origin = point hit, direction = scatter_direction\<rparr>
      in ((True, a, scattered), g1))"

definition metal_scatter ::
  "'g env \<Rightarrow> color \<Rightarrow> real \<Rightarrow> ray \<Rightarrow> hit_record \<Rightarrow> 'g \<Rightarrow> 'g scatter_result" where
  "metal_scatter env a fz r_in hit g =
     (let reflection = reflect (unit_vector (direction r_in)) (normal hit);
          (rv, g1) = random_unit_vector env g;
          scattered = \<lparr>origin = point hit, direction = reflection + scale fz rv\<rparr>
      in ((dot (direction scattered) (normal hit) > 0, a, scattered), g1))"

definition reflectance :: "real \<Rightarrow> real \<Rightarrow> real" where
  "reflectance cosine ref_idx =
     (let r0 = (1 - ref_idx) / (1 + ref_idx);
          r0 = r0 * r0
      in r0 + (1 - r0) * (1 - cosine) ^ 5)"

text \<open>
  In \<open>dielectric::scatter\<close> the operator \<open>||\<close> calls \<open>random_double\<close> only when
  \<open>cannot_refract\<close> is false.
\<close>

definition dielectric_scatter ::
  "'g env \<Rightarrow> real \<Rightarrow> ray \<Rightarrow> hit_record \<Rightarrow> 'g \<Rightarrow> 'g scatter_result" where
  "dielectric_scatter env idx r_in hit g =
     (let attenuation = Vec3 1.0 1.0 1.0;
          refraction_ratio = (if front_face hit then 1.0 / idx else idx);
          unit_direction = unit_vector (direction r_in);
          cos_theta = min (dot (- unit_direction) (normal hit)) 1.0;
          sin_theta = sqrt (1 - cos_theta * cos_theta);
          cannot_refract = (refraction_ratio * sin_theta > 1.0);
          (do_reflect, g1) =
             (if cannot_refract then (True, g)
              else (let (d, g') = random_double env g
                    in (reflectance cos_theta refraction_ratio > d, g')));
          dir = (if do_reflect then reflect unit_direction (normal hit)
                 else refract env unit_direction (normal hit) refraction_ratio)
      in ((True, attenuation, \<lparr>origin = point hit, direction = dir\<rparr>), g1))"

text \<open>The virtual call \<open>mat->scatter(...)\<close> dispatches on the class of the material.\<close>

fun scatter :: "'g env \<Rightarrow> material \<Rightarrow> ray \<Rightarrow> hit_record \<Rightarrow> 'g \<Rightarrow> 'g scatter_result" where
  "scatter env (Lambertian a) r_in hit g = lambertian_scatter env a r_in hit g"
| "scatter env (Metal a fz) r_in hit g = metal_scatter env a fz r_in hit g"
| "scatter env (Dielectric idx) r_in hit g = dielectric_scatter env idx r_in hit g"

section \<open>The hittable collection\<close>

text \<open>
  \<open>hittable_list::hit\<close>. The state of the loop over \<open>objects\<close> is the four locals
  \<open>temp_rec\<close>, \<open>hit_anything\<close>, \<open>closest_so_far\<close> and the caller's record \<open>rec\<close>;
  \<open>lo\<close> is \<open>ray_t.min\<close>. Each member is handed \<open>temp_rec\<close> as the previous members
  left it.
\<close>

fun hit_loop ::
  "hittable list \<Rightarrow> ray \<Rightarrow> real \<Rightarrow> hit_record \<Rightarrow> bool \<Rightarrow> real \<Rightarrow> hit_record
     \<Rightarrow> bool \<times> hit_record" where
  "hit_loop [] r lo temp_rec hit_anything closest_so_far rec = (hit_anything, rec)"
| "hit_loop (object # objects) r lo temp_rec hit_anything closest_so_far rec =
     (case object r \<lparr>min_val = lo, max_val = closest_so_far\<rparr> temp_rec of
        (hit_it, temp_rec') \<Rightarrow>
          if hit_it then hit_loop objects r lo temp_rec' True (t temp_rec') temp_rec'
          else hit_loop objects r lo temp_rec' hit_anything closest_so_far rec)"

definition hittable_list_hit :: "'g env \<Rightarrow> hittable list \<Rightarrow> hittable" where
  "hittable_list_hit env objects r ray_t rec =
     hit_loop objects r (min_val ray_t) (fresh_record env) False (max_val ray_t) rec"

section \<open>Recursive colour estimation\<close>

datatype error = NullMaterial

text \<open>
  \<open>camera::ray_color\<close>. Dereferencing a null \<open>hit.mat\<close> has no defined behaviour; the
  model returns \<open>Inl NullMaterial\<close> there. The result carries the state of the random
  source after the call.
\<close>

definition background :: "ray \<Rightarrow> color" where
  "background r =
     (let unit_direction = unit_vector (direction r);
          a = 0.5 * (vec_y unit_direction + 1.0)
      in scale (1.0 - a) (Vec3 1.0 1.0 1.0) + scale a (Vec3 0.5 0.7 1.0))"

function ray_color ::
  "'g env \<Rightarrow> ray \<Rightarrow> int \<Rightarrow> hittable \<Rightarrow> 'g \<Rightarrow> error + (color \<times> 'g)" where
  "ray_color env r depth world g =
     (if depth \<le> 0 then Inr (Vec3 0 0 0, g)
      else
        (case world r \<lparr>min_val = 0.001, max_val = infinity env\<rparr> (fresh_record env) of
           (hit_it, hit) \<Rightarrow>
             if hit_it then
               (case mat hit of
                  None \<Rightarrow> Inl NullMaterial
                | Some m \<Rightarrow>
                    (case scatter env m r hit g of
                       ((did_scatter, attenuation, scattered), g1) \<Rightarrow>
                         if did_scatter then
                           (case ray_color env scattered (depth - 1) world g1 of
                              Inl e \<Rightarrow> Inl e
                            | Inr (c, g2) \<Rightarrow> Inr (attenuation * c, g2))
                         else Inr (Vec3 0 0 0, g1)))
             else Inr (background r, g)))"
  by pat_completeness auto
termination
  by (relation "measure (\<lambda>(env, r, depth, world, g). nat depth)") auto

section \<open>The camera\<close>

text \<open>
  Class \<open>camera\<close>: the public parameters, then the private members that \<open>initialize\<close>
  derives. The basis vectors \<open>u\<close>, \<open>v\<close>, \<open>w\<close> are the fields \<open>basis_u\<close>, \<open>basis_v\<close>,
  \<open>basis_w\<close>.
\<close>

record camera =
  aspect_ratio :: real
  image_width :: int
  samples_per_pixel :: int
  max_depth :: int
  vfov :: real
  lookfrom :: point3
  lookat :: point3
  vup :: vec3
  defocus_angle :: real
  focus_dist :: real
  image_height :: int
  center :: point3
  pixel00_loc :: point3
  pixel_delta_u :: vec3
  pixel_delta_v :: vec3
  basis_u :: vec3
  basis_v :: vec3
  basis_w :: vec3
  defocus_disk_u :: vec3
  defocus_disk_v :: vec3

text \<open>\<open>static_cast<int>\<close> of a \<open>double\<close> drops the fractional part.\<close>

definition static_cast_int :: "real \<Rightarrow> int" where
  "static_cast_int d = (if 0 \<le> d then \<lfloor>d\<rfloor> else \<lceil>d\<rceil>)"

definition initialize :: "camera \<Rightarrow> camera" where
  "initialize cam =
     (let ih = static_cast_int (real_of_int (image_width cam) / aspect_ratio cam);
          ih = (if ih < 1 then 1 else ih);
          ctr = lookfrom cam;
          theta = degrees_to_radians (vfov cam);
          h = tan (theta / 2);
          viewport_height = 2 * h * focus_dist cam;
          viewport_width =
            viewport_height * (real_of_int (image_width cam) / real_of_int ih);
          bw = unit_vector (lookfrom cam - lookat cam);
          bu = unit_vector (cross (vup cam) bw);
          bv = cross bw bu;
          viewport_u = scale viewport_width bu;
          viewport_v = scale viewport_height (- bv);
          pdu = vdiv viewport_u (real_of_int (image_width cam));
          pdv = vdiv viewport_v (real_of_int ih);
          viewport_upper_left =
            ctr - scale (focus_dist cam) bw - vdiv viewport_u 2 - vdiv viewport_v 2;
          p00 = viewport_upper_left + scale 0.5 (pdu + pdv);
          defocus_radius =
            focus_dist cam * tan (degrees_to_radians (defocus_angle cam / 2))
      in cam\<lparr>image_height := ih, center := ctr, pixel00_loc := p00,
              pixel_delta_u := pdu, pixel_delta_v := pdv,
              basis_u := bu, basis_v := bv, basis_w := bw,
              defocus_disk_u := scale defocus_radius bu,
              defocus_disk_v := scale defocus_radius bv\<rparr>)"

definition pixel_sample_square :: "'g env \<Rightarrow> camera \<Rightarrow> 'g \<Rightarrow> vec3 \<times> 'g" where
  "pixel_sample_square env cam g =
     (let (d1, g1) = random_double env g;
          px = - 0.5 + d1;
          (d2, g2) = random_double env g1;
          py = - 0.5 + d2
      in (scale px (pixel_delta_u cam) + scale py (pixel_delta_v cam), g2))"

definition defocus_disk_sample :: "'g env \<Rightarrow> camera \<Rightarrow> 'g \<Rightarrow> point3 \<times> 'g" where
  "defocus_disk_sample env cam g =
     (let (p, g1) = random_in_unit_disk env g
      in (center cam + scale (vec_x p) (defocus_disk_u cam)
                     + scale (vec_y p) (defocus_disk_v cam), g1))"

definition get_ray :: "'g env \<Rightarrow> camera \<Rightarrow> int \<Rightarrow> int \<Rightarrow> 'g \<Rightarrow> ray \<times> 'g" where
  "get_ray env cam i j g =
     (let pixel_center = pixel00_loc cam + scale (real_of_int i) (pixel_delta_u cam)
                                         + scale (real_of_int j) (pixel_delta_v cam);
          (sq, g1) = pixel_sample_square env cam g;
          pixel_sample = pixel_center + sq;
          (ray_origin, g2) = (if defocus_angle cam \<le> 0 then (center cam, g1)
                              else defocus_disk_sample env cam g1);
          ray_direction = pixel_sample - ray_origin
      in (\<lparr>origin = ray_origin, direction = ray_direction\<rparr>, g2))"

text \<open>
  What \<open>render\<close> sends towards \<open>std::cout\<close>: the header line with width and height, and
  one call \<open>write_color(std::cout, pixel_color, samples_per_pixel)\<close> per pixel, recorded with
  the two arguments the encoder of \<open>color.h\<close> receives. The progress messages on
  \<open>std::clog\<close> are left out.
\<close>

datatype out_event = Header int int | Write_color color int

text \<open>The loop over \<open>sample\<close> (the accumulation into \<open>pixel_color\<close>).\<close>

function sample_loop ::
  "'g env \<Rightarrow> camera \<Rightarrow> hittable \<Rightarrow> int \<Rightarrow> int \<Rightarrow> int \<Rightarrow> color \<Rightarrow> 'g
     \<Rightarrow> error + (color \<times> 'g)" where
  "sample_loop env cam world i j sample pixel_color g =
     (if sample < samples_per_pixel cam then
        (case get_ray env cam i j g of
           (r, g1) \<Rightarrow>
             (case ray_color env r (max_depth cam) world g1 of
                Inl e \<Rightarrow> Inl e
              | Inr (c, g2) \<Rightarrow>
                  sample_loop env cam world i j (sample + 1) (pixel_color + c) g2))
      else Inr (pixel_color, g))"
  by pat_completeness auto
termination
  by (relation "measure (\<lambda>(env, cam, world, i, j, sample, pixel_color, g).
                   nat (samples_per_pixel cam - sample))") auto

text \<open>The body of the loop over \<open>i\<close>: one pixel, from \<open>pixel_color(0,0,0)\<close> to \<open>write_color\<close>.\<close>

definition render_pixel ::
  "'g env \<Rightarrow> camera \<Rightarrow> hittable \<Rightarrow> int \<Rightarrow> int \<Rightarrow> 'g \<Rightarrow> error + (out_event \<times> 'g)" where
  "render_pixel env cam world i j g =
     (case sample_loop env cam world i j 0 (Vec3 0 0 0) g of
        Inl e \<Rightarrow> Inl e
      | Inr (pixel_color, g1) \<Rightarrow> Inr (Write_color pixel_color (samples_per_pixel cam), g1))"

function column_loop ::
  "'g env \<Rightarrow> camera \<Rightarrow> hittable \<Rightarrow> int \<Rightarrow> int \<Rightarrow> 'g \<Rightarrow> error + (out_event list \<times> 'g)" where
  "column_loop env cam world j i g =
     (if i < image_width cam then
        (case render_pixel env cam world i j g of
           Inl e \<Rightarrow> Inl e
         | Inr (out, g1) \<Rightarrow>
             (case column_loop env cam world j (i + 1) g1 of
                Inl e \<Rightarrow> Inl e
              | Inr (outs, g2) \<Rightarrow> Inr (out # outs, g2)))
      else Inr ([], g))"
  by pat_completeness auto
termination
  by (relation "measure (\<lambda>(env, cam, world, j, i, g). nat (image_width cam - i))") auto

function row_loop ::
  "'g env \<Rightarrow> camera \<Rightarrow> hittable \<Rightarrow> int \<Rightarrow> 'g \<Rightarrow> error + (out_event list \<times> 'g)" where
  "row_loop env cam world j g =
     (if j < image_height cam then
        (case column_loop env cam world j 0 g of
           Inl e \<Rightarrow> Inl e
         | Inr (outs, g1) \<Rightarrow>
             (case row_loop env cam world (j + 1) g1 of
                Inl e \<Rightarrow> Inl e
              | Inr (rest, g2) \<Rightarrow> Inr (outs @ rest, g2)))
      else Inr ([], g))"
  by pat_completeness auto
termination
  by (relation "measure (\<lambda>(env, cam, world, j, g). nat (image_height cam - j))") auto

text \<open>
  \<open>camera::render\<close>. The camera it leaves behind differs from the one it was given in
  the private members only, which nothing outside the class reads; the model returns
  the output and the state of the random source.
\<close>

definition render ::
  "'g env \<Rightarrow> camera \<Rightarrow> hittable \<Rightarrow> 'g \<Rightarrow> error + (out_event list \<times> 'g)" where
  "render env cam world g =
     (let cam1 = initialize cam
      in case row_loop env cam1 world 0 g of
           Inl e \<Rightarrow> Inl e
         | Inr (outs, g1) \<Rightarrow>
             Inr (Header (image_width cam1) (image_height cam1) # outs, g1))"

section \<open>Reference notions for the closest-hit search\<close>

text \<open>
  Testing each member on its own over the interval \<open>ray_t\<close>, each from the record
  \<open>rec0\<close>: the records of the members that report a hit, in the order of the list.
\<close>

definition individual_hits ::
  "hittable list \<Rightarrow> ray \<Rightarrow> interval \<Rightarrow> hit_record \<Rightarrow> hit_record list" where
  "individual_hits objects r ray_t rec0 =
     map (\<lambda>object. snd (object r ray_t rec0))
         (filter (\<lambda>object. fst (object r ray_t rec0)) objects)"

text \<open>
  The contract a member keeps towards the interval it is given, for the ray \<open>r\<close>:
  lowering the upper bound from \<open>hi\<close> to \<open>c\<close> never changes the hit the member reports,
  keeps no hit beyond \<open>c\<close> and loses no hit before \<open>c\<close>; and neither the verdict nor the
  record of a hit depends on what the record held before the call (\<open>a\<close>, \<open>b\<close>).
\<close>

definition honours_interval :: "hittable \<Rightarrow> ray \<Rightarrow> bool" where
  "honours_interval object r \<longleftrightarrow>
     (\<forall>lo hi c a b. c \<le> hi \<longrightarrow>
        (fst (object r \<lparr>min_val = lo, max_val = c\<rparr> a) \<longrightarrow>
           fst (object r \<lparr>min_val = lo, max_val = hi\<rparr> b)
           \<and> snd (object r \<lparr>min_val = lo, max_val = hi\<rparr> b)
               = snd (object r \<lparr>min_val = lo, max_val = c\<rparr> a)
           \<and> t (snd (object r \<lparr>min_val = lo, max_val = c\<rparr> a)) \<le> c)
      \<and> (fst (object r \<lparr>min_val = lo, max_val = hi\<rparr> b)
           \<and> t (snd (object r \<lparr>min_val = lo, max_val = hi\<rparr> b)) < c \<longrightarrow>
           fst (object r \<lparr>min_val = lo, max_val = c\<rparr> a)))"

section \<open>Concrete scenes\<close>

text \<open>
  A random source that counts its draws and always answers the same, a tolerance test
  for \<open>near_zero\<close>, and a zeroed record for the indeterminate one. The bound
  \<open>infinity\<close> is a large finite number and \<open>refract\<close> only rescales; no result below
  depends on either.
\<close>

definition example_env :: "nat env" where
  "example_env =
     \<lparr>infinity = 1000000,
      random_double = (\<lambda>g. (1 / 2, Suc g)),
      random_unit_vector = (\<lambda>g. (Vec3 0 1 0, Suc g)),
      random_in_unit_disk = (\<lambda>g. (Vec3 0 0 0, Suc g)),
      near_zero = (\<lambda>a. \<bar>vec_x a\<bar> < 1 / 100000000 \<and> \<bar>vec_y a\<bar> < 1 / 100000000
                        \<and> \<bar>vec_z a\<bar> < 1 / 100000000),
      refract = (\<lambda>uv n etai_over_etat. scale etai_over_etat uv),
      uninit = \<lparr>point = Vec3 0 0 0, normal = Vec3 0 0 0, t = 0, mat = None,
                front_face = False\<rparr>\<rparr>"

definition example_ray :: ray where
  "example_ray = \<lparr>origin = Vec3 0 0 0, direction = Vec3 0 0 (- 1)\<rparr>"

text \<open>
  A member that the ray meets at the parameter \<open>tau\<close> and nowhere else: it reports the
  hit when \<open>tau\<close> lies strictly inside the interval, and leaves the record alone
  otherwise.
\<close>

definition example_shape :: "real \<Rightarrow> material \<Rightarrow> hittable" where
  "example_shape tau m r ray_t rec =
     (if min_val ray_t < tau \<and> tau < max_val ray_t
      then (True, \<lparr>point = origin r + scale tau (direction r),
                   normal = - direction r, t = tau, mat = Some m, front_face = True\<rparr>)
      else (False, rec))"

text \<open>
  The colours of the samples of one pixel, one \<open>ray_color\<close> result per turn of the loop
  over \<open>sample\<close>, drawn in the order \<open>sample_loop\<close> draws them.
\<close>

function sample_colors ::
  "'g env \<Rightarrow> camera \<Rightarrow> hittable \<Rightarrow> int \<Rightarrow> int \<Rightarrow> int \<Rightarrow> 'g
     \<Rightarrow> error + (color list \<times> 'g)" where
  "sample_colors env cam world i j sample g =
     (if sample < samples_per_pixel cam then
        (case get_ray env cam i j g of
           (r, g1) \<Rightarrow>
             (case ray_color env r (max_depth cam) world g1 of
                Inl e \<Rightarrow> Inl e
              | Inr (c, g2) \<Rightarrow>
                  (case sample_colors env cam world i j (sample + 1) g2 of
                     Inl e \<Rightarrow> Inl e
                   | Inr (cs, g3) \<Rightarrow> Inr (c # cs, g3))))
      else Inr ([], g))"
  by pat_completeness auto
termination
  by (relation "measure (\<lambda>(env, cam, world, i, j, sample, g).
                   nat (samples_per_pixel cam - sample))") auto

text \<open>
  A camera of one pixel and two samples per pixel that looks along the z axis with a
  vertical field of view of 90 degrees and no defocus; the private members hold zeros
  until \<open>initialize\<close> writes them.
\<close>

definition example_camera :: camera where
  "example_camera =
     \<lparr>aspect_ratio = 1, image_width = 1, samples_per_pixel = 2, max_depth = 10,
      vfov = 90, lookfrom = Vec3 0 0 (- 1), lookat = Vec3 0 0 0, vup = Vec3 0 1 0,
      defocus_angle = 0, focus_dist = 10,
      image_height = 0, center = Vec3 0 0 0, pixel00_loc = Vec3 0 0 0,
      pixel_delta_u = Vec3 0 0 0, pixel_delta_v = Vec3 0 0 0,
      basis_u = Vec3 0 0 0, basis_v = Vec3 0 0 0, basis_w = Vec3 0 0 0,
      defocus_disk_u = Vec3 0 0 0, defocus_disk_v = Vec3 0 0 0\<rparr>"

declare ray_color.simps [simp del]

section \<open>Orientation of the stored normal\<close>

text \<open>
  C3. For every ray and every outward normal, \<open>set_face_normal\<close> stores \<open>front_face\<close> equal
  to \<open>dot(ray.direction, outward_normal) < 0\<close>, stores the outward normal when
  \<open>front_face\<close> is true and its negation otherwise, and the stored normal never points
  along the ray: \<open>dot(ray.direction, stored_normal) <= 0\<close>.
\<close>

theorem set_face_normal_against_ray:
  "front_face (set_face_normal rec r outward_normal) = (dot (direction r) outward_normal < 0)
   \<and> normal (set_face_normal rec r outward_normal)
       = (if front_face (set_face_normal rec r outward_normal) then outward_normal
          else - outward_normal)
   \<and> dot (direction r) (normal (set_face_normal rec r outward_normal)) \<le> 0"
  by (simp add: set_face_normal_def Let_def dot_def uminus_vec3_def)

section \<open>Material scattering\<close>

text \<open>
  C5. Whatever the incoming ray, the hit record and the state of the random source, a
  dielectric material scatters (the verdict is true) and the attenuation it writes is
  the colour \<open>(1,1,1)\<close>.
\<close>

theorem dielectric_always_scatters:
  "fst (fst (scatter env (dielectric idx) r_in hit g))
   \<and> fst (snd (fst (scatter env (dielectric idx) r_in hit g))) = Vec3 1 1 1"
  by (simp add: dielectric_def dielectric_scatter_def Let_def split: prod.splits)

text \<open>
  C6. Whatever the incoming ray, the hit record and the random perturbation, a metal
  material scatters exactly when the reflected direction plus \<open>fuzz\<close> times the random
  unit vector, which is the direction of the scattered ray, has a dot product with the
  surface normal strictly above 0; with a dot product of 0 or less the verdict is false.
\<close>

theorem metal_scatters_iff_outward:
  "direction (snd (snd (fst (scatter env (Metal a fz) r_in hit g))))
     = reflect (unit_vector (direction r_in)) (normal hit)
       + scale fz (fst (random_unit_vector env g))
   \<and> fst (fst (scatter env (Metal a fz) r_in hit g))
     = (0 < dot (reflect (unit_vector (direction r_in)) (normal hit)
                 + scale fz (fst (random_unit_vector env g))) (normal hit))"
  by (simp add: metal_scatter_def Let_def split: prod.splits)

text \<open>
  C9. For every construction parameter \<open>f\<close> the fuzz stored in a metal instance is \<open>f\<close>
  when \<open>f < 1\<close> and 1 otherwise, hence at most 1. The class has no member that assigns
  \<open>fuzz\<close> after the constructor, and \<open>scatter\<close> is \<open>const\<close>: a material is a value that
  \<open>scatter\<close> reads, and the perturbation it applies is that stored fuzz times the
  random unit vector.
\<close>

theorem metal_fuzz_clamped:
  "fuzz (metal a f) = (if f < 1 then f else 1)
   \<and> fuzz (metal a f) \<le> 1
   \<and> direction (snd (snd (fst (scatter env (metal a f) r_in hit g))))
       = reflect (unit_vector (direction r_in)) (normal hit)
         + scale (fuzz (metal a f)) (fst (random_unit_vector env g))"
  by (simp add: metal_def metal_scatter_def Let_def split: prod.splits)

section \<open>Colour estimation\<close>

text \<open>
  C2. For every ray, every world and every depth of 0 or less, \<open>ray_color\<close> returns
  black \<open>(0,0,0)\<close>; the result is the same for every world and the random source is
  left as it was, so neither the world nor a material has been consulted.
\<close>

theorem ray_color_depth_exhausted:
  "depth \<le> 0 \<Longrightarrow> ray_color env r depth world g = Inr (Vec3 0 0 0, g)"
  by (simp add: ray_color.simps)

theorem ray_color_depth_exhausted_witness:
  "(- 2 :: int) \<le> 0
   \<and> ray_color example_env example_ray (- 2)
        (hittable_list_hit example_env [example_shape 1 (lambertian (Vec3 1 1 1))]) (0 :: nat)
      = Inr (Vec3 0 0 0, 0)"
  using ray_color_depth_exhausted [of "- 2" example_env example_ray
      "hittable_list_hit example_env [example_shape 1 (lambertian (Vec3 1 1 1))]" 0]
  by simp

section \<open>The closest-hit search\<close>

lemma hit_loop_keeps_hit: "fst (hit_loop objects r lo temp_rec True c rec)"
  by (induction objects arbitrary: temp_rec c rec) (auto split: prod.splits)

lemma hit_loop_miss:
  "\<not> fst (hit_loop objects r lo temp_rec ha c rec)
   \<Longrightarrow> snd (hit_loop objects r lo temp_rec ha c rec) = rec"
proof (induction objects arbitrary: temp_rec ha c rec)
  case Nil
  then show ?case by simp
next
  case (Cons object objects)
  obtain b temp' where ob: "object r \<lparr>min_val = lo, max_val = c\<rparr> temp_rec = (b, temp')"
    by (cases "object r \<lparr>min_val = lo, max_val = c\<rparr> temp_rec")
  show ?case
  proof (cases b)
    case True
    with ob Cons.prems hit_loop_keeps_hit [of objects r lo temp' "t temp'" temp']
    show ?thesis by simp
  next
    case False
    with ob Cons.prems Cons.IH [of temp' ha c rec] show ?thesis by simp
  qed
qed

text \<open>
  C10. For every ray and every interval, when the collection's \<open>hit\<close> returns false the
  record the caller supplied is unchanged.
\<close>

theorem hittable_list_miss_keeps_record:
  "\<not> fst (hittable_list_hit env objects r ray_t rec)
   \<Longrightarrow> snd (hittable_list_hit env objects r ray_t rec) = rec"
  unfolding hittable_list_hit_def by (rule hit_loop_miss)

theorem hittable_list_miss_keeps_record_witness:
  "\<not> fst (hittable_list_hit example_env [example_shape 20 (lambertian (Vec3 1 1 1))]
            example_ray \<lparr>min_val = 0.001, max_val = 10\<rparr>
            \<lparr>point = Vec3 1 2 3, normal = Vec3 0 1 0, t = 7, mat = None, front_face = True\<rparr>)
   \<and> snd (hittable_list_hit example_env [example_shape 20 (lambertian (Vec3 1 1 1))]
            example_ray \<lparr>min_val = 0.001, max_val = 10\<rparr>
            \<lparr>point = Vec3 1 2 3, normal = Vec3 0 1 0, t = 7, mat = None, front_face = True\<rparr>)
     = \<lparr>point = Vec3 1 2 3, normal = Vec3 0 1 0, t = 7, mat = None, front_face = True\<rparr>"
proof -
  have miss: "\<not> fst (hittable_list_hit example_env [example_shape 20 (lambertian (Vec3 1 1 1))]
            example_ray \<lparr>min_val = 0.001, max_val = 10\<rparr>
            \<lparr>point = Vec3 1 2 3, normal = Vec3 0 1 0, t = 7, mat = None, front_face = True\<rparr>)"
    by (simp add: hittable_list_hit_def example_shape_def)
  from miss hittable_list_miss_keeps_record [OF miss] show ?thesis by simp
qed

lemma hit_loop_nearest:
  assumes "\<forall>object \<in> set objects. honours_interval object r" and "c \<le> hi"
  shows "(hit_loop objects r lo temp_rec ha c rec = (ha, rec)
          \<and> (\<forall>y \<in> set (individual_hits objects r \<lparr>min_val = lo, max_val = hi\<rparr> rec0). c \<le> t y)
          \<and> (c = hi \<longrightarrow> individual_hits objects r \<lparr>min_val = lo, max_val = hi\<rparr> rec0 = []))
       \<or> (fst (hit_loop objects r lo temp_rec ha c rec)
          \<and> snd (hit_loop objects r lo temp_rec ha c rec)
               \<in> set (individual_hits objects r \<lparr>min_val = lo, max_val = hi\<rparr> rec0)
          \<and> t (snd (hit_loop objects r lo temp_rec ha c rec)) \<le> c
          \<and> (\<forall>y \<in> set (individual_hits objects r \<lparr>min_val = lo, max_val = hi\<rparr> rec0).
                 t (snd (hit_loop objects r lo temp_rec ha c rec)) \<le> t y))"
  using assms
proof (induction objects arbitrary: temp_rec ha c rec)
  case Nil
  then show ?case by (simp add: individual_hits_def)
next
  case (Cons object objects)
  let ?full = "object r \<lparr>min_val = lo, max_val = hi\<rparr> rec0"
  let ?H' = "individual_hits objects r \<lparr>min_val = lo, max_val = hi\<rparr> rec0"
  have hon: "honours_interval object r" using Cons.prems(1) by simp
  have rest: "\<forall>object \<in> set objects. honours_interval object r" using Cons.prems(1) by simp
  obtain b temp' where ob: "object r \<lparr>min_val = lo, max_val = c\<rparr> temp_rec = (b, temp')"
    by (cases "object r \<lparr>min_val = lo, max_val = c\<rparr> temp_rec")
  have Hc: "individual_hits (object # objects) r \<lparr>min_val = lo, max_val = hi\<rparr> rec0
           = (if fst ?full then snd ?full # ?H' else ?H')"
    by (simp add: individual_hits_def)
  show ?case
  proof (cases b)
    case True
    from hon Cons.prems(2) ob True
    have f: "fst ?full" and s: "snd ?full = temp'" and tc: "t temp' \<le> c"
      unfolding honours_interval_def by (metis fst_conv snd_conv)+
    have step: "hit_loop (object # objects) r lo temp_rec ha c rec
                = hit_loop objects r lo temp' True (t temp') temp'"
      using ob True by simp
    from tc Cons.prems(2) have le: "t temp' \<le> hi" by simp
    from Cons.IH [OF rest le, of temp' True temp'] show ?thesis
      unfolding step Hc using f s tc by auto
  next
    case False
    from hon Cons.prems(2) ob False
    have far: "fst ?full \<Longrightarrow> c \<le> t (snd ?full)"
      unfolding honours_interval_def by (metis fst_conv not_le_imp_less)
    have same: "c = hi \<Longrightarrow> \<not> fst ?full"
      using hon ob False unfolding honours_interval_def by (metis fst_conv order_refl)
    have step: "hit_loop (object # objects) r lo temp_rec ha c rec
                = hit_loop objects r lo temp' ha c rec"
      using ob False by simp
    from Cons.IH [OF rest Cons.prems(2), of temp' ha rec] show ?thesis
      unfolding step Hc using far same by auto
  qed
qed

lemma example_shape_honours: "honours_interval (example_shape tau m) r"
  by (auto simp add: honours_interval_def example_shape_def)

text \<open>
  C1. For every ray, every interval and every list of hittable members, that is, of
  members that keep the contract of a hit test towards the interval they are given
  (\<open>honours_interval\<close>: a reported hit has its \<open>t\<close> at or below the upper bound of the
  interval, and it is the same hit whatever the upper bound, as long as its \<open>t\<close> lies
  below it), the collection's
  \<open>hit\<close> gives the result of testing each member on its own over that interval and
  taking a hit of minimum \<open>t\<close>: it reports a hit exactly when some member does; with no
  member hit the caller's record is unchanged; otherwise the record it returns is the
  record of one of the members' own hits, and its \<open>t\<close> is at most the \<open>t\<close> of every
  member's own hit over the same interval. The loop reaches this by handing each
  member the interval from \<open>ray_t.min\<close> to \<open>closest_so_far\<close> (lemma \<open>hit_loop_nearest\<close>
  is its invariant).
\<close>

theorem hittable_list_hit_nearest:
  assumes "\<forall>object \<in> set objects. honours_interval object r"
  shows "(fst (hittable_list_hit env objects r ray_t rec)
            \<longleftrightarrow> individual_hits objects r ray_t rec0 \<noteq> [])
       \<and> (individual_hits objects r ray_t rec0 = []
            \<longrightarrow> snd (hittable_list_hit env objects r ray_t rec) = rec)
       \<and> (individual_hits objects r ray_t rec0 \<noteq> []
            \<longrightarrow> snd (hittable_list_hit env objects r ray_t rec)
                  \<in> set (individual_hits objects r ray_t rec0)
                \<and> (\<forall>y \<in> set (individual_hits objects r ray_t rec0).
                      t (snd (hittable_list_hit env objects r ray_t rec)) \<le> t y))"
proof -
  have iv: "\<lparr>min_val = min_val ray_t, max_val = max_val ray_t\<rparr> = ray_t" by simp
  have le: "max_val ray_t \<le> max_val ray_t" by simp
  from hit_loop_nearest [OF assms le, where lo = "min_val ray_t"
      and temp_rec = "fresh_record env" and ha = False and rec = rec and ?rec0.0 = rec0]
  show ?thesis unfolding hittable_list_hit_def iv by auto
qed

theorem hittable_list_hit_nearest_witness:
  "honours_interval (example_shape 5 (lambertian (Vec3 1 0 0))) example_ray
   \<and> honours_interval (example_shape 3 (dielectric 1.5)) example_ray
   \<and> honours_interval (example_shape 20 (metal (Vec3 1 1 1) 0)) example_ray
   \<and> individual_hits [example_shape 5 (lambertian (Vec3 1 0 0)), example_shape 3 (dielectric 1.5),
         example_shape 20 (metal (Vec3 1 1 1) 0)] example_ray \<lparr>min_val = 0.001, max_val = 10\<rparr>
         (uninit example_env)
       = [snd (example_shape 5 (lambertian (Vec3 1 0 0)) example_ray
                 \<lparr>min_val = 0.001, max_val = 10\<rparr> (uninit example_env)),
          snd (example_shape 3 (dielectric 1.5) example_ray
                 \<lparr>min_val = 0.001, max_val = 10\<rparr> (uninit example_env))]
   \<and> fst (hittable_list_hit example_env
         [example_shape 5 (lambertian (Vec3 1 0 0)), example_shape 3 (dielectric 1.5),
          example_shape 20 (metal (Vec3 1 1 1) 0)] example_ray \<lparr>min_val = 0.001, max_val = 10\<rparr>
         (uninit example_env))
   \<and> t (snd (hittable_list_hit example_env
         [example_shape 5 (lambertian (Vec3 1 0 0)), example_shape 3 (dielectric 1.5),
          example_shape 20 (metal (Vec3 1 1 1) 0)] example_ray \<lparr>min_val = 0.001, max_val = 10\<rparr>
         (uninit example_env))) = 3"
proof -
  let ?objs = "[example_shape 5 (lambertian (Vec3 1 0 0)), example_shape 3 (dielectric 1.5),
          example_shape 20 (metal (Vec3 1 1 1) 0)]"
  have hyp: "\<forall>object \<in> set ?objs. honours_interval object example_ray"
    by (simp add: example_shape_honours)
  have ind: "individual_hits ?objs example_ray \<lparr>min_val = 0.001, max_val = 10\<rparr> (uninit example_env)
       = [snd (example_shape 5 (lambertian (Vec3 1 0 0)) example_ray
                 \<lparr>min_val = 0.001, max_val = 10\<rparr> (uninit example_env)),
          snd (example_shape 3 (dielectric 1.5) example_ray
                 \<lparr>min_val = 0.001, max_val = 10\<rparr> (uninit example_env))]"
    by (simp add: individual_hits_def example_shape_def)
  from hittable_list_hit_nearest [OF hyp, of example_env "\<lparr>min_val = 0.001, max_val = 10\<rparr>"
      "uninit example_env" "uninit example_env"]
  have "fst (hittable_list_hit example_env ?objs example_ray \<lparr>min_val = 0.001, max_val = 10\<rparr>
              (uninit example_env))"
    and "t (snd (hittable_list_hit example_env ?objs example_ray \<lparr>min_val = 0.001, max_val = 10\<rparr>
              (uninit example_env))) \<le> 3"
    unfolding ind by (simp_all add: example_shape_def)
  moreover have "t (snd (hittable_list_hit example_env ?objs example_ray
       \<lparr>min_val = 0.001, max_val = 10\<rparr> (uninit example_env))) = 3"
    by (simp add: hittable_list_hit_def example_shape_def)
  ultimately show ?thesis using ind by (simp add: example_shape_honours)
qed

section \<open>Lengths of vectors\<close>

lemma dot_self_nonneg: "0 \<le> dot a a"
  by (simp add: dot_def)

lemma dot_cauchy_schwarz: "(dot a b)\<^sup>2 \<le> dot a a * dot b b"
proof (cases a, cases b)
  fix x1 y1 z1 x2 y2 z2
  assume a: "a = Vec3 x1 y1 z1" and b: "b = Vec3 x2 y2 z2"
  have "dot a a * dot b b - (dot a b)\<^sup>2
        = (x1 * y2 - y1 * x2)\<^sup>2 + (x1 * z2 - z1 * x2)\<^sup>2 + (y1 * z2 - z1 * y2)\<^sup>2"
    by (simp add: a b dot_def power2_eq_square algebra_simps)
  moreover have "0 \<le> (x1 * y2 - y1 * x2)\<^sup>2 + (x1 * z2 - z1 * x2)\<^sup>2 + (y1 * z2 - z1 * y2)\<^sup>2"
    by simp
  ultimately show ?thesis by linarith
qed

lemma dot_le_lengths: "dot a b \<le> length_vec a * length_vec b"
proof -
  have "\<bar>dot a b\<bar> = sqrt ((dot a b)\<^sup>2)" by simp
  also have "\<dots> \<le> sqrt (dot a a * dot b b)"
    using dot_cauchy_schwarz by (rule real_sqrt_le_mono)
  also have "\<dots> = length_vec a * length_vec b"
    by (simp add: length_vec_def real_sqrt_mult)
  finally show ?thesis by linarith
qed

lemma length_vec_nonneg: "0 \<le> length_vec a"
  by (simp add: length_vec_def dot_self_nonneg)

lemma length_vec_triangle: "length_vec (a + b) \<le> length_vec a + length_vec b"
proof -
  have expand: "dot (a + b) (a + b) = dot a a + 2 * dot a b + dot b b"
    by (simp add: dot_def plus_vec3_def algebra_simps)
  have sq: "(length_vec a + length_vec b)\<^sup>2
            = dot a a + 2 * (length_vec a * length_vec b) + dot b b"
    by (simp add: length_vec_def power2_sum dot_self_nonneg)
  have "dot (a + b) (a + b) \<le> (length_vec a + length_vec b)\<^sup>2"
    unfolding expand sq using dot_le_lengths [of a b] by simp
  moreover have "0 \<le> length_vec a + length_vec b"
    using length_vec_nonneg [of a] length_vec_nonneg [of b] by simp
  ultimately show ?thesis
    unfolding length_vec_def [of "a + b"] by (rule real_le_lsqrt [rotated 1])
qed

lemma length_vec_uminus: "length_vec (- a) = length_vec a"
  by (simp add: length_vec_def dot_def uminus_vec3_def)

lemma vec3_add_cancel: "(a + b) + (- a) = (b :: vec3)"
  by (cases a, cases b) (simp add: plus_vec3_def uminus_vec3_def)

lemma fallback_not_near_zero:
  assumes u: "length_vec rv = 1"
    and small: "\<forall>a. nz a \<longrightarrow> length_vec a < 1 / 2"
    and deg: "nz (n + rv)"
  shows "\<not> nz n"
proof
  assume "nz n"
  with small have n: "length_vec n < 1 / 2" by blast
  from small deg have s: "length_vec (n + rv) < 1 / 2" by blast
  have "length_vec rv \<le> length_vec (n + rv) + length_vec (- n)"
    using length_vec_triangle [of "n + rv" "- n"] by (simp add: vec3_add_cancel)
  with n s u show False by (simp add: length_vec_uminus)
qed

section \<open>Diffuse scattering and the background\<close>

text \<open>
  C7. For every hit record and every state of the random source, the Lambertian
  material scatters (the verdict is true) with the albedo as attenuation; when
  \<open>normal + random_unit_vector\<close> is near zero the scattered direction is the hit normal
  itself, and otherwise it is that sum. When the random vector has length 1 and
  \<open>near_zero\<close> accepts only vectors shorter than 1/2, the scattered direction is never
  near zero.
\<close>

theorem lambertian_scatter_never_degenerate:
  "fst (fst (scatter env (lambertian a) r_in hit g))
   \<and> fst (snd (fst (scatter env (lambertian a) r_in hit g))) = a
   \<and> (near_zero env (normal hit + fst (random_unit_vector env g))
        \<longrightarrow> direction (snd (snd (fst (scatter env (lambertian a) r_in hit g)))) = normal hit)
   \<and> (\<not> near_zero env (normal hit + fst (random_unit_vector env g))
        \<longrightarrow> direction (snd (snd (fst (scatter env (lambertian a) r_in hit g))))
             = normal hit + fst (random_unit_vector env g))
   \<and> (length_vec (fst (random_unit_vector env g)) = 1
        \<and> (\<forall>b. near_zero env b \<longrightarrow> length_vec b < 1 / 2)
        \<longrightarrow> \<not> near_zero env (direction (snd (snd (fst (scatter env (lambertian a) r_in hit g))))))"
proof -
  obtain rv g1 where draw: "random_unit_vector env g = (rv, g1)"
    by (cases "random_unit_vector env g")
  have sc: "scatter env (lambertian a) r_in hit g
       = ((True, a, \<lparr>origin = point hit,
            direction = (if near_zero env (normal hit + rv) then normal hit
                         else normal hit + rv)\<rparr>), g1)"
    by (simp add: lambertian_def lambertian_scatter_def draw Let_def)
  have "\<not> near_zero env (if near_zero env (normal hit + rv) then normal hit else normal hit + rv)"
    if "length_vec rv = 1" and "\<forall>b. near_zero env b \<longrightarrow> length_vec b < 1 / 2"
    using fallback_not_near_zero [OF that] by simp
  then show ?thesis by (simp add: sc draw)
qed

lemma example_near_zero_small: "near_zero example_env b \<Longrightarrow> length_vec b < 1 / 2"
proof -
  assume nz: "near_zero example_env b"
  have sq: "c\<^sup>2 < (1 / 100000000)\<^sup>2" if "\<bar>c\<bar> < 1 / 100000000" for c :: real
    using power_strict_mono [of "\<bar>c\<bar>" "1 / 100000000" 2] that by simp
  from nz have "(vec_x b)\<^sup>2 < (1 / 100000000)\<^sup>2" "(vec_y b)\<^sup>2 < (1 / 100000000)\<^sup>2"
    "(vec_z b)\<^sup>2 < (1 / 100000000)\<^sup>2"
    by (simp_all add: example_env_def sq)
  then have "dot b b < (1 / 2)\<^sup>2"
    by (simp add: dot_def power2_eq_square)
  then show ?thesis
    unfolding length_vec_def by (intro real_less_lsqrt) simp_all
qed

theorem lambertian_scatter_never_degenerate_witness:
  "length_vec (fst (random_unit_vector example_env 0)) = 1
   \<and> near_zero example_env (Vec3 0 (- 1) 0 + fst (random_unit_vector example_env 0))
   \<and> fst (fst (scatter example_env (lambertian (Vec3 0.5 0.5 0.5)) example_ray
        \<lparr>point = Vec3 0 0 (- 1), normal = Vec3 0 (- 1) 0, t = 1, mat = None, front_face = True\<rparr> 0))
   \<and> direction (snd (snd (fst (scatter example_env (lambertian (Vec3 0.5 0.5 0.5)) example_ray
        \<lparr>point = Vec3 0 0 (- 1), normal = Vec3 0 (- 1) 0, t = 1, mat = None, front_face = True\<rparr> 0))))
      = Vec3 0 (- 1) 0
   \<and> \<not> near_zero example_env
        (direction (snd (snd (fst (scatter example_env (lambertian (Vec3 0.5 0.5 0.5)) example_ray
        \<lparr>point = Vec3 0 0 (- 1), normal = Vec3 0 (- 1) 0, t = 1, mat = None, front_face = True\<rparr> 0)))))"
proof -
  have u: "length_vec (fst (random_unit_vector example_env 0)) = 1"
    by (simp add: example_env_def length_vec_def dot_def)
  have small: "\<forall>b. near_zero example_env b \<longrightarrow> length_vec b < 1 / 2"
    using example_near_zero_small by blast
  have deg: "near_zero example_env (Vec3 0 (- 1) 0 + fst (random_unit_vector example_env 0))"
    by (simp add: example_env_def plus_vec3_def)
  note th = lambertian_scatter_never_degenerate [of example_env "Vec3 0.5 0.5 0.5" example_ray
      "\<lparr>point = Vec3 0 0 (- 1), normal = Vec3 0 (- 1) 0, t = 1, mat = None, front_face = True\<rparr>" 0]
  from th u small
  have ok: "\<not> near_zero example_env
        (direction (snd (snd (fst (scatter example_env (lambertian (Vec3 0.5 0.5 0.5)) example_ray
        \<lparr>point = Vec3 0 0 (- 1), normal = Vec3 0 (- 1) 0, t = 1, mat = None, front_face = True\<rparr> 0)))))"
    by blast
  from th deg
  have fb: "direction (snd (snd (fst (scatter example_env (lambertian (Vec3 0.5 0.5 0.5)) example_ray
        \<lparr>point = Vec3 0 0 (- 1), normal = Vec3 0 (- 1) 0, t = 1, mat = None, front_face = True\<rparr> 0))))
      = Vec3 0 (- 1) 0"
    by simp
  from th have "fst (fst (scatter example_env (lambertian (Vec3 0.5 0.5 0.5)) example_ray
        \<lparr>point = Vec3 0 0 (- 1), normal = Vec3 0 (- 1) 0, t = 1, mat = None, front_face = True\<rparr> 0))"
    by blast
  with u deg fb ok show ?thesis by blast
qed

text \<open>
  C8. For every ray that misses the world, and every depth above 0, \<open>ray_color\<close>
  returns \<open>(1-a)*white + a*sky-blue\<close> with \<open>a = 0.5*(y+1)\<close>, \<open>y\<close> the vertical component of
  the unit vector of the ray's direction, and leaves the random source as it was. An
  empty collection is missed by every ray, so it yields that value for every ray; no
  material is consulted.
\<close>

theorem ray_color_miss_is_gradient:
  assumes "0 < depth"
  shows "(\<not> fst (world r \<lparr>min_val = 0.001, max_val = infinity env\<rparr> (fresh_record env))
          \<longrightarrow> ray_color env r depth world g
              = Inr (scale (1 - 0.5 * (vec_y (unit_vector (direction r)) + 1)) (Vec3 1 1 1)
                     + scale (0.5 * (vec_y (unit_vector (direction r)) + 1)) (Vec3 0.5 0.7 1), g))
       \<and> ray_color env r depth (hittable_list_hit env []) g
              = Inr (scale (1 - 0.5 * (vec_y (unit_vector (direction r)) + 1)) (Vec3 1 1 1)
                     + scale (0.5 * (vec_y (unit_vector (direction r)) + 1)) (Vec3 0.5 0.7 1), g)"
proof -
  have miss: "ray_color env r depth w g = Inr (background r, g)"
    if "\<not> fst (w r \<lparr>min_val = 0.001, max_val = infinity env\<rparr> (fresh_record env))" for w
  proof -
    obtain b h where res: "w r \<lparr>min_val = 0.001, max_val = infinity env\<rparr> (fresh_record env) = (b, h)"
      by (cases "w r \<lparr>min_val = 0.001, max_val = infinity env\<rparr> (fresh_record env)")
    with that have "\<not> b" by simp
    with assms res show ?thesis by (subst ray_color.simps) simp
  qed
  have empty: "\<not> fst (hittable_list_hit env [] r \<lparr>min_val = 0.001, max_val = infinity env\<rparr>
                        (fresh_record env))"
    by (simp add: hittable_list_hit_def)
  show ?thesis using miss [of world] miss [of "hittable_list_hit env []"] empty
    by (simp add: background_def Let_def)
qed

theorem ray_color_miss_is_gradient_witness:
  "(0 :: int) < 3
   \<and> \<not> fst (hittable_list_hit example_env [example_shape (- 1) (metal (Vec3 1 1 1) 0.3)] example_ray
             \<lparr>min_val = 0.001, max_val = infinity example_env\<rparr> (fresh_record example_env))
   \<and> ray_color example_env example_ray 3
        (hittable_list_hit example_env [example_shape (- 1) (metal (Vec3 1 1 1) 0.3)]) 0
      = Inr (Vec3 (3 / 4) (17 / 20) 1, 0)
   \<and> ray_color example_env example_ray 3 (hittable_list_hit example_env []) 0
      = Inr (Vec3 (3 / 4) (17 / 20) 1, 0)"
proof -
  have d: "(0 :: int) < 3" by simp
  have miss: "\<not> fst (hittable_list_hit example_env [example_shape (- 1) (metal (Vec3 1 1 1) 0.3)]
             example_ray \<lparr>min_val = 0.001, max_val = infinity example_env\<rparr>
             (fresh_record example_env))"
    by (simp add: hittable_list_hit_def example_shape_def)
  have uv: "unit_vector (direction example_ray) = Vec3 0 0 (- 1)"
    by (simp add: example_ray_def unit_vector_def vdiv_def scale_def length_vec_def dot_def)
  from ray_color_miss_is_gradient [OF d, of
      "hittable_list_hit example_env [example_shape (- 1) (metal (Vec3 1 1 1) 0.3)]"
      example_ray example_env 0] miss
  show ?thesis by (simp add: uv scale_def plus_vec3_def)
qed

section \<open>What the encoder receives\<close>

declare sample_loop.simps [simp del]
declare sample_colors.simps [simp del]
declare column_loop.simps [simp del]
declare row_loop.simps [simp del]

lemma sample_loop_sums:
  "sample_loop env cam world i j sample pixel_color g
   = (case sample_colors env cam world i j sample g of
        Inl e \<Rightarrow> Inl e
      | Inr (cs, g1) \<Rightarrow> Inr (foldl (+) pixel_color cs, g1))"
proof (induction env cam world i j sample pixel_color g rule: sample_loop.induct)
  case (1 env cam world i j sample pixel_color g)
  show ?case
  proof (cases "sample < samples_per_pixel cam")
    case False
    then show ?thesis
      by (simp add: sample_loop.simps [of env cam world i j sample]
          sample_colors.simps [of env cam world i j sample])
  next
    case True
    obtain r g1 where gr: "get_ray env cam i j g = (r, g1)"
      by (cases "get_ray env cam i j g")
    show ?thesis
    proof (cases "ray_color env r (max_depth cam) world g1")
      case (Inl e)
      with True gr show ?thesis
        by (simp add: sample_loop.simps [of env cam world i j sample]
            sample_colors.simps [of env cam world i j sample])
    next
      case (Inr p)
      obtain c g2 where p: "p = (c, g2)" by (cases p)
      from "1.IH" [OF True gr [symmetric] Inr [unfolded p] refl] True gr Inr p
      show ?thesis
        by (simp add: sample_loop.simps [of env cam world i j sample]
            sample_colors.simps [of env cam world i j sample] split: sum.splits)
    qed
  qed
qed

lemma sample_colors_length:
  "sample_colors env cam world i j sample g = Inr (cs, g1)
   \<Longrightarrow> length cs = nat (samples_per_pixel cam - sample)"
proof (induction env cam world i j sample g arbitrary: cs g1 rule: sample_colors.induct)
  case (1 env cam world i j sample g)
  show ?case
  proof (cases "sample < samples_per_pixel cam")
    case False
    with "1.prems" show ?thesis
      by (simp add: sample_colors.simps [of env cam world i j sample])
  next
    case True
    obtain r g1' where gr: "get_ray env cam i j g = (r, g1')"
      by (cases "get_ray env cam i j g")
    from "1.prems" True gr obtain c g2 cs' where
      rc: "ray_color env r (max_depth cam) world g1' = Inr (c, g2)"
      and rest: "sample_colors env cam world i j (sample + 1) g2 = Inr (cs', g1)"
      and cs: "cs = c # cs'"
      by (auto simp add: sample_colors.simps [of env cam world i j sample] split: sum.splits)
    from "1.IH" [OF True gr [symmetric] rc refl rest] True cs show ?thesis
      by (simp add: nat_diff_distrib Suc_nat_eq_nat_zadd1 nat_add_distrib)
  qed
qed

text \<open>
  C4, amended. For every finished pixel, the colour the core hands to the encoder is the
  raw sum of the \<open>samples_per_pixel\<close> accumulated \<open>ray_color\<close> results, and the sample
  count is handed over beside it as the second argument of \<open>write_color\<close>: the core
  does not divide.
\<close>

theorem render_pixel_hands_over_sum:
  "render_pixel env cam world i j g
   = (case sample_colors env cam world i j 0 g of
        Inl e \<Rightarrow> Inl e
      | Inr (cs, g1) \<Rightarrow>
          Inr (Write_color (foldl (+) (Vec3 0 0 0) cs) (samples_per_pixel cam), g1))
   \<and> (\<forall>cs g1. sample_colors env cam world i j 0 g = Inr (cs, g1)
        \<longrightarrow> length cs = nat (samples_per_pixel cam))"
proof -
  have "length cs = nat (samples_per_pixel cam)"
    if "sample_colors env cam world i j 0 g = Inr (cs, g1)" for cs g1
    using sample_colors_length [OF that] by simp
  then show ?thesis
    by (simp add: render_pixel_def sample_loop_sums split: sum.splits)
qed

lemma initialize_example_camera:
  "initialize example_camera =
     example_camera\<lparr>image_height := 1, center := Vec3 0 0 (- 1), pixel00_loc := Vec3 0 0 9,
       pixel_delta_u := Vec3 (- 20) 0 0, pixel_delta_v := Vec3 0 (- 20) 0,
       basis_u := Vec3 (- 1) 0 0, basis_v := Vec3 0 1 0, basis_w := Vec3 0 0 (- 1),
       defocus_disk_u := Vec3 0 0 0, defocus_disk_v := Vec3 0 0 0\<rparr>"
  by (simp add: initialize_def example_camera_def Let_def static_cast_int_def tan_45
      degrees_to_radians_def unit_vector_def vdiv_def scale_def length_vec_def dot_def
      cross_def minus_vec3_def plus_vec3_def uminus_vec3_def)

lemma initialized_example_fields:
  "image_width (initialize example_camera) = 1"
  "image_height (initialize example_camera) = 1"
  "samples_per_pixel (initialize example_camera) = 2"
  "max_depth (initialize example_camera) = 10"
  "defocus_angle (initialize example_camera) = 0"
  "center (initialize example_camera) = Vec3 0 0 (- 1)"
  "pixel00_loc (initialize example_camera) = Vec3 0 0 9"
  "pixel_delta_u (initialize example_camera) = Vec3 (- 20) 0 0"
  "pixel_delta_v (initialize example_camera) = Vec3 0 (- 20) 0"
  unfolding initialize_example_camera by (simp_all add: example_camera_def)

lemma get_ray_example:
  "get_ray example_env (initialize example_camera) 0 0 g
   = (\<lparr>origin = Vec3 0 0 (- 1), direction = Vec3 0 0 10\<rparr>, Suc (Suc g))"
  by (simp add: initialized_example_fields get_ray_def pixel_sample_square_def example_env_def
      Let_def scale_def plus_vec3_def minus_vec3_def)

lemma get_ray_example_first:
  "get_ray example_env (initialize example_camera) 0 0 0
   = (\<lparr>origin = Vec3 0 0 (- 1), direction = Vec3 0 0 10\<rparr>, 2)"
  using get_ray_example [of 0] by simp

lemma get_ray_example_second:
  "get_ray example_env (initialize example_camera) 0 0 2
   = (\<lparr>origin = Vec3 0 0 (- 1), direction = Vec3 0 0 10\<rparr>, 4)"
  using get_ray_example [of 2] by simp

lemma ray_color_example:
  "ray_color example_env \<lparr>origin = Vec3 0 0 (- 1), direction = Vec3 0 0 10\<rparr> 10
     (hittable_list_hit example_env []) g = Inr (Vec3 (3 / 4) (17 / 20) 1, g)"
proof -
  have uv: "unit_vector (Vec3 0 0 10) = Vec3 0 0 1"
    by (simp add: unit_vector_def vdiv_def scale_def length_vec_def dot_def
        real_sqrt_unique [of 10 100])
  show ?thesis
    by (subst ray_color.simps)
       (simp add: hittable_list_hit_def background_def Let_def uv scale_def plus_vec3_def)
qed

lemma sample_colors_example:
  "sample_colors example_env (initialize example_camera) (hittable_list_hit example_env []) 0 0 0 0
   = Inr ([Vec3 (3 / 4) (17 / 20) 1, Vec3 (3 / 4) (17 / 20) 1], 4)"
proof -
  have spp: "samples_per_pixel (initialize example_camera) = 2"
    and md: "max_depth (initialize example_camera) = 10"
    by (simp_all add: initialized_example_fields)
  have s2: "sample_colors example_env (initialize example_camera)
              (hittable_list_hit example_env []) 0 0 2 4 = Inr ([], 4)"
    by (subst sample_colors.simps) (simp add: spp)
  have s1: "sample_colors example_env (initialize example_camera)
              (hittable_list_hit example_env []) 0 0 1 2 = Inr ([Vec3 (3 / 4) (17 / 20) 1], 4)"
    by (subst sample_colors.simps)
       (simp add: spp md get_ray_example_second ray_color_example s2)
  show ?thesis
    by (subst sample_colors.simps)
       (simp add: spp md get_ray_example_first ray_color_example s1)
qed

theorem render_pixel_hands_over_sum_witness:
  "sample_colors example_env (initialize example_camera) (hittable_list_hit example_env []) 0 0 0 0
     = Inr ([Vec3 (3 / 4) (17 / 20) 1, Vec3 (3 / 4) (17 / 20) 1], 4)
   \<and> length [Vec3 (3 / 4) (17 / 20) 1, Vec3 (3 / 4) (17 / 20) 1]
     = nat (samples_per_pixel (initialize example_camera))
   \<and> render_pixel example_env (initialize example_camera) (hittable_list_hit example_env []) 0 0 0
     = Inr (Write_color (Vec3 (3 / 2) (17 / 10) 2) 2, 4)"
proof -
  note th = render_pixel_hands_over_sum [of example_env "initialize example_camera"
      "hittable_list_hit example_env []" 0 0 0]
  have spp: "samples_per_pixel (initialize example_camera) = 2"
    by (simp add: initialized_example_fields)
  from th sample_colors_example
  have "length [Vec3 (3 / 4) (17 / 20) 1, Vec3 (3 / 4) (17 / 20) 1]
     = nat (samples_per_pixel (initialize example_camera))"
    by blast
  moreover from th
  have "render_pixel example_env (initialize example_camera) (hittable_list_hit example_env []) 0 0 0
     = Inr (Write_color (Vec3 (3 / 2) (17 / 10) 2) 2, 4)"
    by (simp add: sample_colors_example spp plus_vec3_def)
  ultimately show ?thesis using sample_colors_example by simp
qed

text \<open>
  The claim as stated fails: with two samples of colour \<open>(3/4, 17/20, 1)\<close> each, \<open>render\<close>
  hands \<open>write_color\<close> their sum \<open>(3/2, 17/10, 2)\<close> with the count 2, not their
  average.
\<close>

theorem render_hands_over_sum_counterexample:
  "render example_env example_camera (hittable_list_hit example_env []) 0
     = Inr ([Header 1 1, Write_color (Vec3 (3 / 2) (17 / 10) 2) 2], 4)
   \<and> sample_colors example_env (initialize example_camera) (hittable_list_hit example_env []) 0 0 0 0
     = Inr ([Vec3 (3 / 4) (17 / 20) 1, Vec3 (3 / 4) (17 / 20) 1], 4)
   \<and> vdiv (Vec3 (3 / 4) (17 / 20) 1 + Vec3 (3 / 4) (17 / 20) 1) 2 = Vec3 (3 / 4) (17 / 20) 1
   \<and> Vec3 (3 / 2) (17 / 10) 2 \<noteq> Vec3 (3 / 4) (17 / 20) 1"
proof -
  have iw: "image_width (initialize example_camera) = 1"
    and ih: "image_height (initialize example_camera) = 1"
    and spp: "samples_per_pixel (initialize example_camera) = 2"
    by (simp_all add: initialized_example_fields)
  have px: "render_pixel example_env (initialize example_camera) (hittable_list_hit example_env []) 0 0 0
     = Inr (Write_color (Vec3 (3 / 2) (17 / 10) 2) 2, 4)"
    by (simp add: render_pixel_def sample_loop_sums sample_colors_example spp plus_vec3_def)
  have c1: "column_loop example_env (initialize example_camera) (hittable_list_hit example_env [])
              0 1 4 = Inr ([], 4)"
    by (subst column_loop.simps) (simp add: iw)
  have c0: "column_loop example_env (initialize example_camera) (hittable_list_hit example_env [])
              0 0 0 = Inr ([Write_color (Vec3 (3 / 2) (17 / 10) 2) 2], 4)"
    by (subst column_loop.simps) (simp add: iw px c1)
  have r1: "row_loop example_env (initialize example_camera) (hittable_list_hit example_env [])
              1 4 = Inr ([], 4)"
    by (subst row_loop.simps) (simp add: ih)
  have r0: "row_loop example_env (initialize example_camera) (hittable_list_hit example_env [])
              0 0 = Inr ([Write_color (Vec3 (3 / 2) (17 / 10) 2) 2], 4)"
    by (subst row_loop.simps) (simp add: ih c0 r1)
  have "render example_env example_camera (hittable_list_hit example_env []) 0
     = Inr ([Header 1 1, Write_color (Vec3 (3 / 2) (17 / 10) 2) 2], 4)"
    by (simp add: render_def Let_def r0 iw ih)
  then show ?thesis
    by (simp add: sample_colors_example vdiv_def scale_def plus_vec3_def)
qed

end
